theory Spec2Isabelle
  imports Main "HOL-Library.Product_Lexorder"
begin

section \<open>JavaScript and PostgreSQL primitives used by the handlers\<close>

text \<open>
  A string is a list of characters with code points below 256 (Latin-1), each one UTF-16
  unit for JavaScript and one character for the database. Numbers are mathematical integers:
  JavaScript computes in doubles, which give the same results as long as every value has a
  magnitude below \<open>2^53\<close> (\<open>safe_int\<close> below); statements that depend on such a
  computation say so. \<open>undefined\<close> is \<open>None\<close> for a query parameter and \<open>Absent\<close> for a
  field of a JSON body.
\<close>

definition js_space :: "char \<Rightarrow> bool" where
  \<comment> \<open>StrWhiteSpaceChar of ECMAScript, as far as it fits in eight bits:
      TAB, LF, VT, FF, CR, SP, NBSP.\<close>
  "js_space c = (of_char c \<in> {9, 10, 11, 12, 13, 32, 160 :: nat})"

definition pg_space :: "char \<Rightarrow> bool" where
  \<comment> \<open>C's \<open>isspace\<close>, which PostgreSQL's integer input routine uses.\<close>
  "pg_space c = (of_char c \<in> {9, 10, 11, 12, 13, 32 :: nat})"

definition is_digit :: "char \<Rightarrow> bool" where
  "is_digit c = (48 \<le> (of_char c :: nat) \<and> (of_char c :: nat) \<le> 57)"

definition digit_val :: "char \<Rightarrow> int" where
  "digit_val c = of_char c - 48"

definition is_hex_digit :: "char \<Rightarrow> bool" where
  "is_hex_digit c = (is_digit c
     \<or> (65 \<le> (of_char c :: nat) \<and> (of_char c :: nat) \<le> 70)
     \<or> (97 \<le> (of_char c :: nat) \<and> (of_char c :: nat) \<le> 102))"

definition hex_val :: "char \<Rightarrow> int" where
  "hex_val c = (if is_digit c then of_char c - 48
                else if (of_char c :: nat) \<le> 70 then of_char c - 55
                else of_char c - 87)"

definition dec_value :: "string \<Rightarrow> int" where
  "dec_value ds = foldl (\<lambda>a c. a * 10 + digit_val c) 0 ds"

definition hex_value :: "string \<Rightarrow> int" where
  "hex_value ds = foldl (\<lambda>a c. a * 16 + hex_val c) 0 ds"

definition strip_sign :: "string \<Rightarrow> bool \<times> string" where
  \<comment> \<open>An optional leading \<open>-\<close> or \<open>+\<close>; the flag says whether it was \<open>-\<close>.\<close>
  "strip_sign s = (case s of
       [] \<Rightarrow> (False, [])
     | c # r \<Rightarrow> if c = CHR ''-'' then (True, r)
                else if c = CHR ''+'' then (False, r)
                else (False, s))"

definition safe_int :: "int \<Rightarrow> bool" where
  \<comment> \<open>The integers of magnitude below \<open>2^53\<close>, on which doubles compute exactly.\<close>
  "safe_int n = (- 9007199254740992 < n \<and> n < 9007199254740992)"

definition parseInt :: "string \<Rightarrow> int option" where
  \<comment> \<open>\<open>parseInt(s)\<close> with no radix; \<open>None\<close> is NaN. Leading white space is skipped, a sign
      is read, a \<open>0x\<close>/\<open>0X\<close> prefix selects base 16, and the longest run of digits is
      converted; whatever follows it is ignored. The result is the integer that the digits
      denote; JavaScript returns the nearest double, which is that integer when it is a
      \<open>safe_int\<close>.\<close>
  "parseInt s =
     (let (neg, s1) = strip_sign (dropWhile js_space s) in
      (case s1 of
         c0 # c1 # r \<Rightarrow>
           if c0 = CHR ''0'' \<and> (c1 = CHR ''x'' \<or> c1 = CHR ''X'')
           then (let z = takeWhile is_hex_digit r in
                 if z = [] then None
                 else Some (if neg then - hex_value z else hex_value z))
           else (let z = takeWhile is_digit s1 in
                 if z = [] then None
                 else Some (if neg then - dec_value z else dec_value z))
       | _ \<Rightarrow>
           (let z = takeWhile is_digit s1 in
            if z = [] then None
            else Some (if neg then - dec_value z else dec_value z))))"

definition parseInt_param :: "string option \<Rightarrow> int option" where
  \<comment> \<open>\<open>parseInt\<close> of a query parameter that may be missing: \<open>parseInt(undefined)\<close> is NaN.\<close>
  "parseInt_param p = (case p of None \<Rightarrow> None | Some s \<Rightarrow> parseInt s)"

definition or_default :: "int option \<Rightarrow> int \<Rightarrow> int" where
  \<comment> \<open>\<open>x || d\<close> on a number: NaN and 0 are falsy.\<close>
  "or_default x d = (case x of None \<Rightarrow> d | Some n \<Rightarrow> if n = 0 then d else n)"

section \<open>Pagination helper (routes/books.js and routes/search.js)\<close>

record pagination =
  pg_limit :: int
  pg_offset :: int
  pg_page :: int

definition getPagination :: "string option \<Rightarrow> string option \<Rightarrow> pagination" where
  "getPagination page limit =
     (let pageNum = or_default (parseInt_param page) 1;
          limitNum = or_default (parseInt_param limit) 10;
          offset = (pageNum - 1) * limitNum
      in \<lparr> pg_limit = min limitNum 50, pg_offset = max offset 0, pg_page = pageNum \<rparr>)"


section \<open>Strings: case folding, trimming, SQL pattern matching\<close>

definition lower_char :: "char \<Rightarrow> char" where
  \<comment> \<open>The lower-case mapping of Unicode on the first 256 code points: the letters A to Z,
      and the letters from U+00C0 to U+00DE except the multiplication sign U+00D7.\<close>
  "lower_char c =
     (if (65 \<le> (of_char c :: nat) \<and> (of_char c :: nat) \<le> 90)
         \<or> (192 \<le> (of_char c :: nat) \<and> (of_char c :: nat) \<le> 222 \<and> (of_char c :: nat) \<noteq> 215)
      then char_of (of_char c + 32 :: nat) else c)"

definition toLowerCase :: "string \<Rightarrow> string" where
  \<comment> \<open>\<open>String.prototype.toLowerCase\<close>.\<close>
  "toLowerCase s = map lower_char s"

definition lower_latin1 :: "string \<Rightarrow> string" where
  \<comment> \<open>SQL's \<open>LOWER\<close> in a database whose locale folds the letters of Latin-1, such as
      \<open>en_US.UTF-8\<close>. What \<open>LOWER\<close> folds depends on the locale of the database; the
      handlers take it from the server (\<open>sv_lower\<close> below).\<close>
  "lower_latin1 s = map lower_char s"

definition trim :: "string \<Rightarrow> string" where
  "trim s = rev (dropWhile js_space (rev (dropWhile js_space s)))"

fun like_match :: "string \<Rightarrow> string \<Rightarrow> bool" where
  \<comment> \<open>\<open>text LIKE pattern\<close> as \<open>like_match pattern text\<close>: \<open>%\<close> stands for any run of
      characters, \<open>_\<close> for any one character, a backslash makes the next pattern character
      literal. (A pattern ending in a lone backslash is an error in PostgreSQL; the handlers
      only build patterns that end in \<open>%\<close>.)\<close>
  "like_match [] t = (t = [])"
| "like_match (p # ps) t =
     (if p = CHR ''%'' then
        (like_match ps t \<or> (case t of [] \<Rightarrow> False | _ # t' \<Rightarrow> like_match (p # ps) t'))
      else if p = CHR ''_'' then
        (case t of [] \<Rightarrow> False | _ # t' \<Rightarrow> like_match ps t')
      else if p = CHR 0x5C then
        (case ps of
           [] \<Rightarrow> False
         | q # qs \<Rightarrow> (case t of [] \<Rightarrow> False | c # t' \<Rightarrow> c = q \<and> like_match qs t'))
      else (case t of [] \<Rightarrow> False | c # t' \<Rightarrow> c = p \<and> like_match ps t'))"

definition contains :: "string \<Rightarrow> string \<Rightarrow> bool" where
  \<comment> \<open>\<open>contains q t\<close>: \<open>q\<close> occurs in \<open>t\<close> as a contiguous substring (the specification's
      notion, against which the \<open>LIKE\<close> of the search query is compared).\<close>
  "contains q t = list_ex (\<lambda>i. take (length q) (drop i t) = q) [0 ..< Suc (length t)]"

section \<open>PostgreSQL values\<close>

definition in_int4 :: "int \<Rightarrow> bool" where
  "in_int4 n = (- 2147483648 \<le> n \<and> n \<le> 2147483647)"

definition in_int8 :: "int \<Rightarrow> bool" where
  "in_int8 n = (- 9223372036854775808 \<le> n \<and> n \<le> 9223372036854775807)"

definition int4in_v15 :: "string \<Rightarrow> int option" where
  \<comment> \<open>The text of a parameter read as an \<open>INTEGER\<close> by PostgreSQL up to version 15 (the
      version that docker-compose.yml runs): optional white space, an optional sign, at least
      one decimal digit, optional white space, nothing else, and a value of 32 bits. \<open>None\<close>
      is the error the server raises, which fails the query.\<close>
  "int4in_v15 s =
     (let (neg, s1) = strip_sign (dropWhile pg_space s);
          ds = takeWhile is_digit s1;
          rest = dropWhile is_digit s1;
          n = (if neg then - dec_value ds else dec_value ds)
      in if ds = [] then None
         else if dropWhile pg_space rest \<noteq> [] then None
         else if in_int4 n then Some n else None)"

definition is_oct_digit :: "char \<Rightarrow> bool" where
  "is_oct_digit c = (48 \<le> (of_char c :: nat) \<and> (of_char c :: nat) \<le> 55)"

definition is_bin_digit :: "char \<Rightarrow> bool" where
  "is_bin_digit c = (c = CHR ''0'' \<or> c = CHR ''1'')"

definition base_value :: "int \<Rightarrow> string \<Rightarrow> int" where
  "base_value b ds = foldl (\<lambda>a c. a * b + hex_val c) 0 ds"

fun scan_digits :: "(char \<Rightarrow> bool) \<Rightarrow> string \<Rightarrow> (string \<times> string) option" where
  \<comment> \<open>The digit loop of the integer input of PostgreSQL from version 16: digits, with single
      underscores that must each be followed by a digit. The result is the digits read and
      the text that follows them; \<open>None\<close> is a syntax error.\<close>
  "scan_digits dig [] = Some ([], [])"
| "scan_digits dig (c # cs) =
     (if dig c then
        (case scan_digits dig cs of None \<Rightarrow> None | Some (ds, r) \<Rightarrow> Some (c # ds, r))
      else if c = CHR ''_'' then
        (case cs of
           [] \<Rightarrow> None
         | c' # cs' \<Rightarrow> if dig c' then scan_digits dig cs else None)
      else Some ([], c # cs))"

definition scan_decimal :: "string \<Rightarrow> (string \<times> string) option" where
  \<comment> \<open>Without a prefix the first character may not be an underscore.\<close>
  "scan_decimal s = (case s of
       [] \<Rightarrow> scan_digits is_digit s
     | c # _ \<Rightarrow> if c = CHR ''_'' then None else scan_digits is_digit s)"

definition int4in_v16 :: "string \<Rightarrow> int option" where
  \<comment> \<open>The same for PostgreSQL from version 16 on, which also reads the prefixes \<open>0x\<close>,
      \<open>0o\<close> and \<open>0b\<close> and underscores between digits: \<open>1_0\<close> is 10 and \<open>0x_1\<close> is 1.\<close>
  "int4in_v16 s =
     (let (neg, s1) = strip_sign (dropWhile pg_space s);
          scanned =
            (case s1 of
               c0 # c1 # r \<Rightarrow>
                 if c0 = CHR ''0'' \<and> (c1 = CHR ''x'' \<or> c1 = CHR ''X'')
                 then map_option (Pair 16) (scan_digits is_hex_digit r)
                 else if c0 = CHR ''0'' \<and> (c1 = CHR ''o'' \<or> c1 = CHR ''O'')
                 then map_option (Pair 8) (scan_digits is_oct_digit r)
                 else if c0 = CHR ''0'' \<and> (c1 = CHR ''b'' \<or> c1 = CHR ''B'')
                 then map_option (Pair 2) (scan_digits is_bin_digit r)
                 else map_option (Pair 10) (scan_decimal s1)
             | _ \<Rightarrow> map_option (Pair 10) (scan_decimal s1))
      in (case scanned of
            None \<Rightarrow> None
          | Some (b, ds, rest) \<Rightarrow>
              if ds = [] then None
              else if dropWhile pg_space rest \<noteq> [] then None
              else (let n = (if neg then - base_value b ds else base_value b ds)
                    in if in_int4 n then Some n else None)))"

record server =
  sv_int4in :: "string \<Rightarrow> int option"
  sv_lower :: "string \<Rightarrow> string"

text \<open>
  What the handlers take from the database server and what differs between the servers that
  the README allows (PostgreSQL 12 or higher, in any locale): how the text of a parameter is
  read as an \<open>INTEGER\<close>, and what \<open>LOWER\<close> folds. The statements below hold for every
  server unless they name one.
\<close>

definition read_int4 :: "server \<Rightarrow> string \<Rightarrow> int option" where
  \<comment> \<open>A text parameter compared with an \<open>INTEGER\<close> column: the server's reading of it, which
      is an error when the value has more than 32 bits.\<close>
  "read_int4 sv s = (case sv_int4in sv s of
                       None \<Rightarrow> None
                     | Some n \<Rightarrow> if in_int4 n then Some n else None)"

definition postgres15 :: server where
  "postgres15 = \<lparr> sv_int4in = int4in_v15, sv_lower = lower_latin1 \<rparr>"

definition postgres16 :: server where
  "postgres16 = \<lparr> sv_int4in = int4in_v16, sv_lower = lower_latin1 \<rparr>"

definition pg_int4_param :: "int \<Rightarrow> int option" where
  \<comment> \<open>A JavaScript number bound to an \<open>INTEGER\<close> parameter: out of range is an error.\<close>
  "pg_int4_param n = (if in_int4 n then Some n else None)"

definition varchar :: "nat \<Rightarrow> string \<Rightarrow> string option" where
  \<comment> \<open>Storing into a \<open>VARCHAR(n)\<close> column: a longer string is an error unless the excess
      is all spaces, which are cut off.\<close>
  "varchar n s = (if length s \<le> n then Some s
                  else if list_all (\<lambda>c. c = CHR '' '') (drop n s) then Some (take n s)
                  else None)"

definition varchar_null :: "nat \<Rightarrow> string option \<Rightarrow> string option option" where
  \<comment> \<open>The same for a nullable column; the outer \<open>None\<close> is the error.\<close>
  "varchar_null n v = (case v of None \<Rightarrow> Some None
                       | Some s \<Rightarrow> (case varchar n s of None \<Rightarrow> None | Some t \<Rightarrow> Some (Some t)))"

section \<open>The schema (scripts/setupDatabase.js)\<close>

record user_row =
  u_id :: int
  u_username :: string
  u_email :: string
  u_password_hash :: string
  u_created_at :: nat
  u_updated_at :: nat

record book_row =
  b_id :: int
  b_title :: string
  b_author :: string
  b_genre :: "string option"
  b_description :: "string option"
  b_published_year :: "int option"
  b_isbn :: "string option"
  b_created_by :: "int option"
  b_created_at :: nat
  b_updated_at :: nat

record review_row =
  r_id :: int
  r_book_id :: int
  r_user_id :: int
  r_rating :: int
  r_review_text :: "string option"
  r_created_at :: nat
  r_updated_at :: nat

record database =
  users :: "user_row list"
  books :: "book_row list"
  reviews :: "review_row list"
  users_id_seq :: int
  books_id_seq :: int
  reviews_id_seq :: int



definition insert_user :: "nat \<Rightarrow> database \<Rightarrow> string \<Rightarrow> string \<Rightarrow> string
                            \<Rightarrow> database \<times> user_row option" where
  \<comment> \<open>\<open>INSERT INTO users (username, email, password_hash) ... RETURNING ...\<close>; \<open>None\<close> is
      the error of a value that does not fit or of a violated constraint (primary key, the
      two \<open>UNIQUE\<close>s).\<close>
  "insert_user now d uname mail hash =
     (case (varchar 50 uname, varchar 100 mail, varchar 255 hash) of
        (Some u, Some e, Some h) \<Rightarrow>
          (let newid = users_id_seq d + 1; d1 = d\<lparr>users_id_seq := newid\<rparr> in
           if \<not> in_int4 newid then (d, None)
           else if list_ex (\<lambda>x. u_id x = newid \<or> u_username x = u \<or> u_email x = e) (users d)
           then (d1, None)
           else (let row = \<lparr> u_id = newid, u_username = u, u_email = e, u_password_hash = h,
                              u_created_at = now, u_updated_at = now \<rparr>
                 in (d1\<lparr>users := users d @ [row]\<rparr>, Some row)))
      | _ \<Rightarrow> (d, None))"

definition insert_book :: "nat \<Rightarrow> database \<Rightarrow> string \<Rightarrow> string \<Rightarrow> string option \<Rightarrow> string option
                            \<Rightarrow> int option \<Rightarrow> string option \<Rightarrow> int \<Rightarrow> database \<times> book_row option" where
  \<comment> \<open>\<open>INSERT INTO books (title, author, genre, description, published_year, isbn,
      created_by) ... RETURNING *\<close>.\<close>
  "insert_book now d ti au ge de yr isbn uid =
     (case (varchar 255 ti, varchar 255 au, varchar_null 100 ge, varchar_null 20 isbn) of
        (Some ti', Some au', Some ge', Some isbn') \<Rightarrow>
          (let newid = books_id_seq d + 1; d1 = d\<lparr>books_id_seq := newid\<rparr> in
           if (case yr of None \<Rightarrow> False | Some y \<Rightarrow> \<not> in_int4 y) then (d, None)
           else if \<not> in_int4 uid then (d, None)
           else if \<not> in_int4 newid then (d, None)
           else if list_ex (\<lambda>x. b_id x = newid) (books d) then (d1, None)
           else if list_ex (\<lambda>x. u_id x = uid) (users d)
           then (let row = \<lparr> b_id = newid, b_title = ti', b_author = au', b_genre = ge',
                              b_description = de, b_published_year = yr, b_isbn = isbn',
                              b_created_by = Some uid, b_created_at = now, b_updated_at = now \<rparr>
                 in (d1\<lparr>books := books d @ [row]\<rparr>, Some row))
           else (d1, None))
      | _ \<Rightarrow> (d, None))"


section \<open>Requests and responses\<close>

datatype 'a field = Absent | Null | Given 'a

text \<open>
  A property of a JSON body: missing (\<open>undefined\<close>), \<open>null\<close>, or a value. A rating or a
  year is taken to be an integer when given and every other field a string.
\<close>

definition truthy_num :: "int field \<Rightarrow> bool" where
  "truthy_num f = (case f of Given n \<Rightarrow> n \<noteq> 0 | _ \<Rightarrow> False)"

definition truthy_str :: "string field \<Rightarrow> bool" where
  "truthy_str f = (case f of Given s \<Rightarrow> s \<noteq> [] | _ \<Rightarrow> False)"


definition falsy_str :: "string field \<Rightarrow> bool" where
  \<comment> \<open>\<open>!x\<close> for a string: \<open>undefined\<close>, \<open>null\<close> and the empty string.\<close>
  "falsy_str f = (case f of Given s \<Rightarrow> s = [] | _ \<Rightarrow> True)"

definition sql_value :: "'a field \<Rightarrow> 'a option" where
  \<comment> \<open>The driver sends \<open>undefined\<close> and \<open>null\<close> as SQL \<open>NULL\<close>.\<close>
  "sql_value f = (case f of Given x \<Rightarrow> Some x | _ \<Rightarrow> None)"

datatype json = JUndefined | JNull | JBool bool | JNumber int | JString string | JObject

text \<open>
  A property of a JSON body whose type matters to the handler: \<open>JObject\<close> stands for any
  array or object.
\<close>

definition falsy :: "json \<Rightarrow> bool" where
  \<comment> \<open>\<open>!x\<close>.\<close>
  "falsy v = (case v of
       JUndefined \<Rightarrow> True | JNull \<Rightarrow> True | JBool b \<Rightarrow> b = False
     | JNumber n \<Rightarrow> n = 0 | JString s \<Rightarrow> s = [] | JObject \<Rightarrow> False)"

datatype 'a response = Failure nat string | Success nat 'a

text \<open>
  \<open>Failure s m\<close> is \<open>res.status(s).json({ error: m })\<close>; \<open>Success s p\<close> is the
  response of status \<open>s\<close> that carries the payload \<open>p\<close>.
\<close>

section \<open>Ownership guard (middleware/auth.js)\<close>

text \<open>
  The handlers below run after \<open>authenticateToken\<close>: \<open>userId\<close> is \<open>req.user.id\<close>, the
  id of the acting user. \<open>pid\<close> (and \<open>reviewId\<close> in the guard) is \<open>req.params.id\<close>, the
  text of the path segment.
\<close>

datatype guard = Next | Halt nat string

definition checkReviewOwnership :: "server \<Rightarrow> database \<Rightarrow> string \<Rightarrow> int \<Rightarrow> guard" where
  \<comment> \<open>The query gets the path segment as it is; the server reads it as an \<open>INTEGER\<close>.\<close>
  "checkReviewOwnership sv d reviewId userId =
     (case read_int4 sv reviewId of
        None \<Rightarrow> Halt 500 ''Authorization error''
      | Some n \<Rightarrow>
          (case filter (\<lambda>r. r_id r = n) (reviews d) of
             [] \<Rightarrow> Halt 404 ''Review not found''
           | r # _ \<Rightarrow>
               if r_user_id r \<noteq> userId
               then Halt 403 ''You can only modify your own reviews''
               else Next))"

section \<open>Reviews (routes/reviews.js)\<close>

definition username_of :: "database \<Rightarrow> int \<Rightarrow> string option" where
  \<comment> \<open>\<open>SELECT username FROM users WHERE id = $1\<close>, first row.\<close>
  "username_of d uid = (case filter (\<lambda>u. u_id u = uid) (users d) of
                          [] \<Rightarrow> None | u # _ \<Rightarrow> Some (u_username u))"


definition update_review :: "nat \<Rightarrow> database \<Rightarrow> int \<Rightarrow> int field \<Rightarrow> string field
                              \<Rightarrow> (database \<times> review_row list) option" where
  \<comment> \<open>\<open>UPDATE reviews SET [rating = ..,] [review_text = ..,] updated_at = CURRENT_TIMESTAMP
      WHERE id = .. RETURNING *\<close>: a column is assigned only when its field was pushed onto
      \<open>updateFields\<close>. \<open>None\<close> is the error of a parameter out of range or of a row that
      would violate \<open>NOT NULL\<close> or the \<open>CHECK\<close> on the rating; nothing is changed then.\<close>
  "update_review now d reviewId rating review_text =
     (let hit = (\<lambda>r. r_id r = reviewId);
          upd = (\<lambda>r. r\<lparr> r_rating := (case rating of Given n \<Rightarrow> n | _ \<Rightarrow> r_rating r),
                         r_review_text := (case review_text of
                                             Absent \<Rightarrow> r_review_text r
                                           | Null \<Rightarrow> None
                                           | Given s \<Rightarrow> Some s),
                         r_updated_at := now \<rparr>)
      in if \<not> in_int4 reviewId then None
         else if (case rating of Given n \<Rightarrow> \<not> in_int4 n | _ \<Rightarrow> False) then None
         else if list_ex hit (reviews d)
                 \<and> (case rating of Absent \<Rightarrow> False | Null \<Rightarrow> True | Given n \<Rightarrow> n < 1 \<or> n > 5)
         then None
         else Some (d\<lparr>reviews := map (\<lambda>r. if hit r then upd r else r) (reviews d)\<rparr>,
                    map upd (filter hit (reviews d))))"

definition updateReview_handler :: "nat \<Rightarrow> database \<Rightarrow> string \<Rightarrow> int \<Rightarrow> int field \<Rightarrow> string field
                          \<Rightarrow> database \<times> (review_row option \<times> string) response" where
  \<comment> \<open>The body of \<open>PUT /reviews/:id\<close>, which runs when the guard has called \<open>next()\<close>.\<close>
  "updateReview_handler now d pid userId rating review_text =
     (case parseInt pid of
        None \<Rightarrow> (d, Failure 400 ''Invalid review ID'')
      | Some reviewId \<Rightarrow>
          if truthy_num rating \<and> (case rating of Given n \<Rightarrow> n < 1 \<or> n > 5 | _ \<Rightarrow> False)
          then (d, Failure 400 ''Rating must be between 1 and 5'')
          else if truthy_str review_text
                  \<and> (case review_text of Given s \<Rightarrow> length s > 2000 | _ \<Rightarrow> False)
          then (d, Failure 400 ''Review text must be less than 2000 characters'')
          else if rating = Absent \<and> review_text = Absent
          then (d, Failure 400 ''At least one field (rating or review_text) must be provided'')
          else (case update_review now d reviewId rating review_text of
                  None \<Rightarrow> (d, Failure 500 ''Internal server error while updating review'')
                | Some (d', rows) \<Rightarrow>
                    (case username_of d' userId of
                       None \<Rightarrow> (d', Failure 500 ''Internal server error while updating review'')
                     | Some name \<Rightarrow>
                         (d', Success 200 (case rows of [] \<Rightarrow> None | r # _ \<Rightarrow> Some r, name)))))"

definition updateReview :: "server \<Rightarrow> nat \<Rightarrow> database \<Rightarrow> string \<Rightarrow> int \<Rightarrow> int field
                          \<Rightarrow> string field
                          \<Rightarrow> database \<times> (review_row option \<times> string) response" where
  \<comment> \<open>\<open>router.put('/:id', authenticateToken, checkReviewOwnership, handler)\<close>.\<close>
  "updateReview sv now d pid userId rating review_text =
     (case checkReviewOwnership sv d pid userId of
        Halt status msg \<Rightarrow> (d, Failure status msg)
      | Next \<Rightarrow> updateReview_handler now d pid userId rating review_text)"

definition deleteReview_handler :: "database \<Rightarrow> string \<Rightarrow> database \<times> review_row option response" where
  \<comment> \<open>The body of \<open>DELETE /reviews/:id\<close>.\<close>
  "deleteReview_handler d pid =
     (case parseInt pid of
        None \<Rightarrow> (d, Failure 400 ''Invalid review ID'')
      | Some reviewId \<Rightarrow>
          (case pg_int4_param reviewId of
             None \<Rightarrow> (d, Failure 500 ''Internal server error while deleting review'')
           | Some n \<Rightarrow>
               (d\<lparr>reviews := filter (\<lambda>r. r_id r \<noteq> n) (reviews d)\<rparr>,
                Success 200 (case filter (\<lambda>r. r_id r = n) (reviews d) of
                               [] \<Rightarrow> None | r # _ \<Rightarrow> Some r))))"

definition deleteReview :: "server \<Rightarrow> database \<Rightarrow> string \<Rightarrow> int
                          \<Rightarrow> database \<times> review_row option response" where
  \<comment> \<open>\<open>router.delete('/:id', authenticateToken, checkReviewOwnership, handler)\<close>.\<close>
  "deleteReview sv d pid userId =
     (case checkReviewOwnership sv d pid userId of
        Halt status msg \<Rightarrow> (d, Failure status msg)
      | Next \<Rightarrow> deleteReview_handler d pid)"

section \<open>Authentication routes (routes/auth.js)\<close>

definition no_space_at :: "string \<Rightarrow> bool" where
  \<comment> \<open>Every character is in the class \<open>[^\s@]\<close>.\<close>
  "no_space_at s = list_all (\<lambda>c. \<not> js_space c \<and> c \<noteq> CHR ''@'') s"

definition validateEmail :: "string \<Rightarrow> bool" where
  \<comment> \<open>\<open>/^[^\s@]+@[^\s@]+\.[^\s@]+$/\<close>: a non-empty local part, one \<open>@\<close>, and a rest
      that has a dot with at least one character on each side.\<close>
  "validateEmail email =
     (let loc = takeWhile (\<lambda>c. c \<noteq> CHR ''@'') email;
          rest = dropWhile (\<lambda>c. c \<noteq> CHR ''@'') email
      in loc \<noteq> [] \<and> no_space_at loc
         \<and> (case rest of
              [] \<Rightarrow> False
            | _ # host \<Rightarrow> no_space_at host \<and> CHR ''.'' \<in> set (butlast (tl host))))"

definition validatePassword :: "string \<Rightarrow> bool" where
  "validatePassword password = (password \<noteq> [] \<and> length password \<ge> 6)"

record 'tok auth_payload =
  ap_id :: int
  ap_username :: string
  ap_email :: string
  ap_created_at :: "nat option"
  ap_token :: 'tok

text \<open>
  \<open>bcrypt.hash\<close>, \<open>bcrypt.compare\<close> (on two strings) and \<open>generateToken\<close> (a signed
  token for a user id) are parameters of the two handlers. The login response has no
  \<open>created_at\<close>.
\<close>

definition signup :: "(string \<Rightarrow> string) \<Rightarrow> (int \<Rightarrow> 'tok) \<Rightarrow> nat \<Rightarrow> database
                       \<Rightarrow> string field \<Rightarrow> string field \<Rightarrow> string field
                       \<Rightarrow> database \<times> 'tok auth_payload response" where
  "signup hash generateToken now d username email password =
     (if falsy_str username \<or> falsy_str email \<or> falsy_str password
      then (d, Failure 400 ''Username, email, and password are required'')
      else (case (username, email, password) of
              (Given un, Given em, Given pw) \<Rightarrow>
                if \<not> validateEmail em
                then (d, Failure 400 ''Please provide a valid email address'')
                else if \<not> validatePassword pw
                then (d, Failure 400 ''Password must be at least 6 characters long'')
                else if length un < 3 \<or> length un > 50
                then (d, Failure 400 ''Username must be between 3 and 50 characters'')
                else if filter (\<lambda>u. u_email u = toLowerCase em \<or> u_username u = toLowerCase un)
                          (users d) \<noteq> []
                then (d, Failure 409 ''User with this email or username already exists'')
                else (case insert_user now d un (toLowerCase em) (hash pw) of
                        (d', None) \<Rightarrow>
                          (d', Failure 500 ''Internal server error during registration'')
                      | (d', Some newUser) \<Rightarrow>
                          (d', Success 201
                             \<lparr> ap_id = u_id newUser, ap_username = u_username newUser,
                               ap_email = u_email newUser,
                               ap_created_at = Some (u_created_at newUser),
                               ap_token = generateToken (u_id newUser) \<rparr>))
            | _ \<Rightarrow> (d, Failure 400 ''Username, email, and password are required'')))"

definition login :: "(string \<Rightarrow> string \<Rightarrow> bool) \<Rightarrow> (int \<Rightarrow> 'tok) \<Rightarrow> database
                      \<Rightarrow> json \<Rightarrow> json \<Rightarrow> 'tok auth_payload response" where
  \<comment> \<open>\<open>email.toLowerCase()\<close> raises a TypeError when the email is not a string, and
      \<open>bcrypt.compare\<close> rejects a password that is not a string; the \<open>catch\<close> block
      answers both with 500.\<close>
  "login compare generateToken d email password =
     (if falsy email \<or> falsy password
      then Failure 400 ''Email and password are required''
      else (case email of
              JString em \<Rightarrow>
                (case filter (\<lambda>u. u_email u = toLowerCase em) (users d) of
                   [] \<Rightarrow> Failure 401 ''Invalid email or password''
                 | user # _ \<Rightarrow>
                     (case password of
                        JString pw \<Rightarrow>
                          if \<not> compare pw (u_password_hash user)
                          then Failure 401 ''Invalid email or password''
                          else Success 200
                                 \<lparr> ap_id = u_id user, ap_username = u_username user,
                                   ap_email = u_email user, ap_created_at = None,
                                   ap_token = generateToken (u_id user) \<rparr>
                      | _ \<Rightarrow> Failure 500 ''Internal server error during login''))
            | _ \<Rightarrow> Failure 500 ''Internal server error during login''))"

section \<open>Books (routes/books.js)\<close>

definition addBook :: "server \<Rightarrow> int \<Rightarrow> nat \<Rightarrow> database \<Rightarrow> int \<Rightarrow> string field \<Rightarrow> string field
                        \<Rightarrow> string field \<Rightarrow> string field \<Rightarrow> int field \<Rightarrow> string field
                        \<Rightarrow> database \<times> book_row response" where
  \<comment> \<open>\<open>year\<close> is \<open>new Date().getFullYear()\<close>.\<close>
  "addBook sv year now d userId title author genre description published_year isbn =
     (if falsy_str title \<or> falsy_str author
      then (d, Failure 400 ''Title and author are required'')
      else (case (title, author) of
              (Given ti, Given au) \<Rightarrow>
                if length ti > 255 \<or> length au > 255
                then (d, Failure 400 ''Title and author must be less than 255 characters'')
                else if truthy_num published_year
                        \<and> (case published_year of Given y \<Rightarrow> y < 0 \<or> y > year | _ \<Rightarrow> False)
                then (d, Failure 400 ''Please provide a valid publication year'')
                else if filter (\<lambda>b. sv_lower sv (b_title b) = sv_lower sv ti
                                      \<and> sv_lower sv (b_author b) = sv_lower sv au) (books d)
                          \<noteq> []
                then (d, Failure 409 ''A book with this title and author already exists'')
                else (case insert_book now d ti au (sql_value genre) (sql_value description)
                             (sql_value published_year) (sql_value isbn) userId of
                        (d', None) \<Rightarrow>
                          (d', Failure 500 ''Internal server error while adding book'')
                      | (d', Some newBook) \<Rightarrow> (d', Success 201 newBook))
            | _ \<Rightarrow> (d, Failure 400 ''Title and author are required'')))"

record book_detail =
  bd_book :: book_row
  bd_created_by_username :: "string option"
  bd_rating_sum :: int
  bd_review_count :: nat

text \<open>
  A row of \<open>books\<close> joined with its creator's name and grouped over its reviews. The
  average rating of the source is carried as the sum of the ratings and their number; its
  formatting with \<open>toFixed(1)\<close> is not modelled.
\<close>

definition book_details :: "database \<Rightarrow> book_row \<Rightarrow> book_detail" where
  \<comment> \<open>\<open>FROM books b LEFT JOIN users u ON b.created_by = u.id LEFT JOIN reviews r ON
      b.id = r.book_id ... GROUP BY b.id, u.username\<close> for one book; \<open>users.id\<close> is a
      primary key, so the join finds at most one creator and the book is one group.\<close>
  "book_details d b =
     (let rs = filter (\<lambda>r. r_book_id r = b_id b) (reviews d) in
      \<lparr> bd_book = b,
        bd_created_by_username =
          (case filter (\<lambda>u. Some (u_id u) = b_created_by b) (users d) of
             [] \<Rightarrow> None | u # _ \<Rightarrow> Some (u_username u)),
        bd_rating_sum = sum_list (map r_rating rs),
        bd_review_count = length rs \<rparr>)"

definition limit_offset :: "int \<Rightarrow> int \<Rightarrow> 'a list \<Rightarrow> 'a list option" where
  \<comment> \<open>\<open>LIMIT l OFFSET o\<close>; a negative value or one beyond 64 bits is an error.\<close>
  "limit_offset l off rows =
     (if l < 0 \<or> off < 0 \<or> \<not> in_int8 l \<or> \<not> in_int8 off then None
      else Some (take (nat l) (drop (nat off) rows)))"


record page_info =
  current_page :: int
  total_pages :: int
  total_items :: int
  has_next :: bool
  has_prev :: bool

definition ceil_div :: "int \<Rightarrow> int \<Rightarrow> int" where
  \<comment> \<open>\<open>Math.ceil(total / limitNum)\<close> for a limit that is not zero.\<close>
  "ceil_div n l = - ((- n) div l)"

definition page_info_of :: "int \<Rightarrow> int \<Rightarrow> int \<Rightarrow> page_info" where
  "page_info_of pageNum totalItems limitNum =
     \<lparr> current_page = pageNum, total_pages = ceil_div totalItems limitNum,
       total_items = totalItems,
       has_next = (pageNum < ceil_div totalItems limitNum), has_prev = (pageNum > 1) \<rparr>"


section \<open>Search (routes/search.js)\<close>

text \<open>
  The full-text condition \<open>to_tsvector('english', title || ' ' || author) @@
  plainto_tsquery('english', $1)\<close> is the parameter \<open>fts\<close>, applied to the document and
  the query.
\<close>

definition relevance_score :: "server \<Rightarrow> string \<Rightarrow> string \<Rightarrow> book_row \<Rightarrow> int" where
  \<comment> \<open>The \<open>CASE\<close> of the query; \<open>p1\<close> is \<open>$1\<close> (the term), \<open>p2\<close> is \<open>$2\<close> (the pattern).\<close>
  "relevance_score sv p1 p2 b =
     (if sv_lower sv (b_title b) = sv_lower sv p1 then 4
      else if sv_lower sv (b_author b) = sv_lower sv p1 then 4
      else if like_match (sv_lower sv p2) (sv_lower sv (b_title b)) then 3
      else if like_match (sv_lower sv p2) (sv_lower sv (b_author b)) then 3
      else 1)"

definition search_where :: "server \<Rightarrow> (string \<Rightarrow> string \<Rightarrow> bool) \<Rightarrow> string \<Rightarrow> string \<Rightarrow> book_row
                             \<Rightarrow> bool" where
  "search_where sv fts p1 p2 b =
     (like_match (sv_lower sv p2) (sv_lower sv (b_title b))
      \<or> like_match (sv_lower sv p2) (sv_lower sv (b_author b))
      \<or> fts (b_title b @ '' '' @ b_author b) p1)"

definition searchQuery :: "server \<Rightarrow> (string \<Rightarrow> string \<Rightarrow> bool) \<Rightarrow> database \<Rightarrow> string \<Rightarrow> string
                            \<Rightarrow> int \<Rightarrow> int \<Rightarrow> (book_detail \<times> int) list option" where
  \<comment> \<open>The rows of \<open>searchQuery\<close>, each with its \<open>relevance_score\<close>: \<open>ORDER BY
      relevance_score DESC, b.created_at DESC LIMIT $3 OFFSET $4\<close>.\<close>
  "searchQuery sv fts d p1 p2 l off =
     limit_offset l off
       (sort_key (\<lambda>(bd, score). (- score, - int (b_created_at (bd_book bd))))
          (map (\<lambda>b. (book_details d b, relevance_score sv p1 p2 b))
               (filter (search_where sv fts p1 p2) (books d))))"

definition search :: "server \<Rightarrow> (string \<Rightarrow> string \<Rightarrow> bool) \<Rightarrow> database \<Rightarrow> string option
       \<Rightarrow> string option \<Rightarrow> string option
       \<Rightarrow> (string \<times> book_detail list \<times> page_info) response" where
  "search sv fts d q page limit =
     (let pg = getPagination page limit in
      (case q of
         None \<Rightarrow> Failure 400 ''Search query (q) is required''
       | Some qs \<Rightarrow>
           if qs = [] \<or> length (trim qs) = 0
           then Failure 400 ''Search query (q) is required''
           else (let searchTerm = trim qs in
                 if length searchTerm < 2
                 then Failure 400 ''Search query must be at least 2 characters long''
                 else (case searchQuery sv fts d searchTerm (''%'' @ searchTerm @ ''%'')
                              (pg_limit pg) (pg_offset pg) of
                         None \<Rightarrow> Failure 500 ''Internal server error while searching books''
                       | Some rows \<Rightarrow>
                           Success 200
                             (searchTerm, map fst rows,
                              page_info_of (pg_page pg)
                                (int (length (filter (search_where sv fts searchTerm
                                                        (''%'' @ searchTerm @ ''%'')) (books d))))
                                (pg_limit pg))))))"

section \<open>Runs of the service\<close>




section \<open>An example state\<close>

definition example_db :: database where
  \<comment> \<open>Two users, one book added by the first, and her review of it.\<close>
  "example_db =
     \<lparr> users = [\<lparr> u_id = 1, u_username = ''Alice'', u_email = ''alice@x.com'',
                   u_password_hash = ''#secret1'', u_created_at = 1, u_updated_at = 1 \<rparr>,
                 \<lparr> u_id = 2, u_username = ''bob'', u_email = ''bob@x.com'',
                   u_password_hash = ''#hunter22'', u_created_at = 2, u_updated_at = 2 \<rparr>],
       books = [\<lparr> b_id = 1, b_title = ''Dune'', b_author = ''Herbert'', b_genre = None,
                   b_description = None, b_published_year = Some 1965, b_isbn = None,
                   b_created_by = Some 1, b_created_at = 3, b_updated_at = 3 \<rparr>],
       reviews = [\<lparr> r_id = 1, r_book_id = 1, r_user_id = 1, r_rating = 5,
                     r_review_text = Some ''great'', r_created_at = 4, r_updated_at = 4 \<rparr>],
       users_id_seq = 2, books_id_seq = 1, reviews_id_seq = 1 \<rparr>"



section \<open>Invariants of the stored reviews\<close>





definition like_plain :: "string \<Rightarrow> bool" where
  \<comment> \<open>No character of the string has a special meaning in a \<open>LIKE\<close> pattern.\<close>
  "like_plain q = list_all (\<lambda>c. c \<noteq> CHR ''%'' \<and> c \<noteq> CHR ''_'' \<and> c \<noteq> CHR 0x5C) q"

section \<open>Theorems: pagination\<close>

text \<open>
  C2 (pagination helper returns page at least 1, limit within 1..50, non-negative offset
  equal to (page - 1) * limit): the helper evaluated at page \<open>-5\<close> with no limit, at limit
  \<open>-3\<close> with no page, and at page \<open>2\<close> with limit \<open>1000\<close>. A negative page is returned as
  it is, a negative limit is returned as it is, and the offset is computed from the limit
  before it is capped at 50.
\<close>

theorem getPagination_negative_and_oversized:
  "getPagination (Some ''-5'') None = \<lparr> pg_limit = 10, pg_offset = 0, pg_page = - 5 \<rparr>
   \<and> getPagination None (Some ''-3'') = \<lparr> pg_limit = - 3, pg_offset = 0, pg_page = 1 \<rparr>
   \<and> getPagination (Some ''2'') (Some ''1000'')
       = \<lparr> pg_limit = 50, pg_offset = 1000, pg_page = 2 \<rparr>"
  by code_simp

text \<open>
  What the helper does guarantee: the defaults for missing, non-numeric and zero inputs, the
  cap of the limit at 50, and the window of the claim for a page of at least 1 (a
  \<open>safe_int\<close>) and a limit within 1 and 50.
\<close>

lemma getPagination_defaults:
  "getPagination None None = \<lparr> pg_limit = 10, pg_offset = 0, pg_page = 1 \<rparr>"
  "getPagination (Some ''0'') (Some ''abc'') = \<lparr> pg_limit = 10, pg_offset = 0, pg_page = 1 \<rparr>"
  "pg_limit (getPagination page (Some ''1000'')) = 50"
  by code_simp+

lemma getPagination_in_range:
  assumes "parseInt_param page = Some p" and "1 \<le> p" and "safe_int p"
    and "parseInt_param limit = Some l" and "1 \<le> l" and "l \<le> 50"
  shows "getPagination page limit = \<lparr> pg_limit = l, pg_offset = (p - 1) * l, pg_page = p \<rparr>"
  using assms by (simp add: getPagination_def or_default_def Let_def)

section \<open>Theorems: the id of a review, as the database and as the handler read it\<close>

lemma pg_space_js_space: "pg_space c \<Longrightarrow> js_space c"
  by (auto simp: pg_space_def js_space_def)

lemma digit_not_js_space: "is_digit c \<Longrightarrow> \<not> js_space c"
  by (auto simp: is_digit_def js_space_def)

lemma sign_not_js_space: "\<not> js_space CHR ''-''" "\<not> js_space CHR ''+''"
  by (simp_all add: js_space_def)

lemma x_not_pg_space: "\<not> pg_space CHR ''x''" "\<not> pg_space CHR ''X''"
  by (simp_all add: pg_space_def)

lemma x_not_digit: "\<not> is_digit CHR ''x''" "\<not> is_digit CHR ''X''"
  by (simp_all add: is_digit_def)

lemma dropWhile_js_pg: "dropWhile js_space s = dropWhile js_space (dropWhile pg_space s)"
proof -
  have "dropWhile js_space (takeWhile pg_space s @ dropWhile pg_space s)
        = dropWhile js_space (dropWhile pg_space s)"
    by (rule dropWhile_append2) (auto dest: set_takeWhileD pg_space_js_space)
  then show ?thesis by simp
qed

lemma strip_sign_digits_no_space:
  assumes "strip_sign p = (neg, s1)" and "takeWhile is_digit s1 \<noteq> []"
  shows "dropWhile js_space p = p"
proof (cases p)
  case Nil
  then show ?thesis by simp
next
  case (Cons c r)
  have "\<not> js_space c"
  proof (cases "c = CHR ''-'' \<or> c = CHR ''+''")
    case True
    then show ?thesis using sign_not_js_space by auto
  next
    case False
    with assms Cons have "s1 = c # r" by (simp add: strip_sign_def)
    with assms(2) have "is_digit c" by (auto split: if_splits)
    then show ?thesis by (rule digit_not_js_space)
  qed
  with Cons show ?thesis by simp
qed

lemma parse_digits:
  assumes ds: "takeWhile is_digit s1 \<noteq> []"
    and rest: "dropWhile pg_space (dropWhile is_digit s1) = []"
  shows "(case s1 of
         c0 # c1 # r \<Rightarrow>
           if c0 = CHR ''0'' \<and> (c1 = CHR ''x'' \<or> c1 = CHR ''X'')
           then (let z = takeWhile is_hex_digit r in
                 if z = [] then None
                 else Some (if neg then - hex_value z else hex_value z))
           else (let z = takeWhile is_digit s1 in
                 if z = [] then None
                 else Some (if neg then - dec_value z else dec_value z))
       | _ \<Rightarrow>
           (let z = takeWhile is_digit s1 in
            if z = [] then None
            else Some (if neg then - dec_value z else dec_value z)))
     = Some (if neg then - dec_value (takeWhile is_digit s1)
             else dec_value (takeWhile is_digit s1))"
proof -
  have "\<not> (\<exists>c1 r. s1 = CHR ''0'' # c1 # r \<and> (c1 = CHR ''x'' \<or> c1 = CHR ''X''))"
  proof
    assume "\<exists>c1 r. s1 = CHR ''0'' # c1 # r \<and> (c1 = CHR ''x'' \<or> c1 = CHR ''X'')"
    then obtain c1 r where s1: "s1 = CHR ''0'' # c1 # r"
      and c1: "c1 = CHR ''x'' \<or> c1 = CHR ''X''"
      by blast
    have "is_digit CHR ''0''" by (simp add: is_digit_def)
    with s1 c1 have "dropWhile is_digit s1 = c1 # r"
      using x_not_digit by auto
    with rest c1 show False using x_not_pg_space by auto
  qed
  with ds show ?thesis
    by (auto split: list.splits simp: Let_def)
qed

lemma int4in_v15_parseInt: "int4in_v15 s = Some n \<Longrightarrow> parseInt s = Some n"
proof -
  assume a: "int4in_v15 s = Some n"
  obtain neg s1 where ss: "strip_sign (dropWhile pg_space s) = (neg, s1)"
    by (cases "strip_sign (dropWhile pg_space s)")
  from a ss have ds: "takeWhile is_digit s1 \<noteq> []"
    and rest: "dropWhile pg_space (dropWhile is_digit s1) = []"
    and n: "n = (if neg then - dec_value (takeWhile is_digit s1)
                 else dec_value (takeWhile is_digit s1))"
    by (auto simp: int4in_v15_def Let_def split: if_splits)
  have "dropWhile js_space s = dropWhile pg_space s"
    using dropWhile_js_pg[of s] strip_sign_digits_no_space[OF ss ds] by simp
  then show ?thesis
    using ss parse_digits[OF ds rest, of neg] n
    by (simp add: parseInt_def)
qed


lemma read_int4_postgres15: "read_int4 postgres15 s = int4in_v15 s"
  by (auto simp: read_int4_def postgres15_def int4in_v15_def Let_def
           split: option.splits if_splits prod.splits)

lemma postgres15_parseInt: "read_int4 postgres15 s = Some n \<Longrightarrow> parseInt s = Some n"
  by (simp add: read_int4_postgres15 int4in_v15_parseInt)

lemma guard_Next:
  assumes "checkReviewOwnership sv d pid userId = Next"
  obtains n r rs where "read_int4 sv pid = Some n"
    and "filter (\<lambda>r. r_id r = n) (reviews d) = r # rs" and "r_user_id r = userId"
  using assms
  by (auto simp: checkReviewOwnership_def split: option.splits list.splits if_splits)

lemma guard_not_Next:
  assumes "checkReviewOwnership sv d pid userId \<noteq> Next"
  shows "checkReviewOwnership sv d pid userId \<in>
           {Halt 404 ''Review not found'', Halt 403 ''You can only modify your own reviews'',
            Halt 500 ''Authorization error''}"
  using assms
  by (auto simp: checkReviewOwnership_def split: option.splits list.splits if_splits)

lemma updateReview_handler_invalid_id:
  "snd (updateReview_handler now d pid userId rating review_text)
     = Failure 400 ''Invalid review ID'' \<longleftrightarrow> parseInt pid = None"
  by (auto simp: updateReview_handler_def split: option.splits)

lemma deleteReview_handler_invalid_id:
  "snd (deleteReview_handler d pid) = Failure 400 ''Invalid review ID'' \<longleftrightarrow> parseInt pid = None"
  by (auto simp: deleteReview_handler_def split: option.splits)

lemma read_int4_v15:
  assumes "sv_int4in sv = int4in_v15"
  shows "read_int4 sv s = int4in_v15 s"
  using assms
  by (auto simp: read_int4_def int4in_v15_def Let_def split: option.splits if_splits prod.splits)

lemma v15_parseInt:
  assumes "sv_int4in sv = int4in_v15" and "read_int4 sv s = Some n"
  shows "parseInt s = Some n"
  using assms by (simp add: read_int4_v15 int4in_v15_parseInt)

lemma updateReview_invalid_id:
  "snd (updateReview sv now d pid userId rating review_text) = Failure 400 ''Invalid review ID''
     \<longleftrightarrow> checkReviewOwnership sv d pid userId = Next \<and> parseInt pid = None"
proof (cases "checkReviewOwnership sv d pid userId")
  case Next
  then show ?thesis
    using updateReview_handler_invalid_id[of now d pid userId rating review_text]
    by (simp add: updateReview_def)
next
  case (Halt s m)
  with guard_not_Next[of sv d pid userId] show ?thesis
    by (auto simp: updateReview_def)
qed

lemma deleteReview_invalid_id:
  "snd (deleteReview sv d pid userId) = Failure 400 ''Invalid review ID''
     \<longleftrightarrow> checkReviewOwnership sv d pid userId = Next \<and> parseInt pid = None"
proof (cases "checkReviewOwnership sv d pid userId")
  case Next
  then show ?thesis
    using deleteReview_handler_invalid_id[of d pid]
    by (simp add: deleteReview_def)
next
  case (Halt s m)
  with guard_not_Next[of sv d pid userId] show ?thesis
    by (auto simp: deleteReview_def)
qed

text \<open>
  C10, amended (the branch 'Invalid review ID' of the update and delete handlers): whenever
  the ownership guard lets a request through, the server has read the raw id as the integer
  id of a stored review of the acting user; in every other case the guard has answered 404,
  403 or 500. A response of \<open>PUT /reviews/:id\<close> or \<open>DELETE /reviews/:id\<close> is the 400 with
  'Invalid review ID' exactly when the guard lets the request through and \<open>parseInt\<close> of the
  same id is NaN. With a server that reads integers as PostgreSQL up to version 15 does, this
  never happens: the branch cannot be reached.
\<close>

theorem invalid_review_id_branch:
  "(checkReviewOwnership sv d pid userId = Next \<longrightarrow>
      (\<exists>n. read_int4 sv pid = Some n
           \<and> list_ex (\<lambda>r. r_id r = n \<and> r_user_id r = userId) (reviews d)))
   \<and> (checkReviewOwnership sv d pid userId \<noteq> Next \<longrightarrow>
        checkReviewOwnership sv d pid userId \<in>
          {Halt 404 ''Review not found'', Halt 403 ''You can only modify your own reviews'',
           Halt 500 ''Authorization error''})
   \<and> (snd (updateReview sv now d pid userId rating review_text)
          = Failure 400 ''Invalid review ID''
        \<longleftrightarrow> checkReviewOwnership sv d pid userId = Next \<and> parseInt pid = None)
   \<and> (snd (deleteReview sv d pid userId) = Failure 400 ''Invalid review ID''
        \<longleftrightarrow> checkReviewOwnership sv d pid userId = Next \<and> parseInt pid = None)
   \<and> (sv_int4in sv = int4in_v15 \<longrightarrow>
        snd (updateReview sv now d pid userId rating review_text)
          \<noteq> Failure 400 ''Invalid review ID''
        \<and> snd (deleteReview sv d pid userId) \<noteq> Failure 400 ''Invalid review ID'')"
proof (intro conjI impI)
  assume nx: "checkReviewOwnership sv d pid userId = Next"
  then obtain n r rs where n: "read_int4 sv pid = Some n"
    and f: "filter (\<lambda>r. r_id r = n) (reviews d) = r # rs" and u: "r_user_id r = userId"
    by (rule guard_Next)
  from f have "r \<in> set (filter (\<lambda>r. r_id r = n) (reviews d))" by simp
  with u have "list_ex (\<lambda>r. r_id r = n \<and> r_user_id r = userId) (reviews d)"
    by (auto simp: list_ex_iff)
  with n show "\<exists>n. read_int4 sv pid = Some n
           \<and> list_ex (\<lambda>r. r_id r = n \<and> r_user_id r = userId) (reviews d)"
    by blast
next
  assume "checkReviewOwnership sv d pid userId \<noteq> Next"
  then show "checkReviewOwnership sv d pid userId \<in>
          {Halt 404 ''Review not found'', Halt 403 ''You can only modify your own reviews'',
           Halt 500 ''Authorization error''}"
    by (rule guard_not_Next)
next
  show "snd (updateReview sv now d pid userId rating review_text)
          = Failure 400 ''Invalid review ID''
        \<longleftrightarrow> checkReviewOwnership sv d pid userId = Next \<and> parseInt pid = None"
    by (rule updateReview_invalid_id)
next
  show "snd (deleteReview sv d pid userId) = Failure 400 ''Invalid review ID''
        \<longleftrightarrow> checkReviewOwnership sv d pid userId = Next \<and> parseInt pid = None"
    by (rule deleteReview_invalid_id)
next
  assume v: "sv_int4in sv = int4in_v15"
  have "\<not> (checkReviewOwnership sv d pid userId = Next \<and> parseInt pid = None)"
  proof
    assume a: "checkReviewOwnership sv d pid userId = Next \<and> parseInt pid = None"
    then obtain n where "read_int4 sv pid = Some n" by (auto elim: guard_Next)
    with v have "parseInt pid = Some n" by (rule v15_parseInt)
    with a show False by simp
  qed
  then show "snd (updateReview sv now d pid userId rating review_text)
          \<noteq> Failure 400 ''Invalid review ID''"
    by (simp add: updateReview_invalid_id)
next
  assume v: "sv_int4in sv = int4in_v15"
  have "\<not> (checkReviewOwnership sv d pid userId = Next \<and> parseInt pid = None)"
  proof
    assume a: "checkReviewOwnership sv d pid userId = Next \<and> parseInt pid = None"
    then obtain n where "read_int4 sv pid = Some n" by (auto elim: guard_Next)
    with v have "parseInt pid = Some n" by (rule v15_parseInt)
    with a show False by simp
  qed
  then show "snd (deleteReview sv d pid userId) \<noteq> Failure 400 ''Invalid review ID''"
    by (simp add: deleteReview_invalid_id)
qed

theorem invalid_review_id_branch_witness:
  "sv_int4in postgres15 = int4in_v15
   \<and> checkReviewOwnership postgres15 example_db ''1'' 1 = Next
   \<and> snd (updateReview postgres15 9 example_db ''1'' 1 (Given 3) Absent)
       \<noteq> Failure 400 ''Invalid review ID''
   \<and> snd (deleteReview postgres15 example_db ''1'' 1) \<noteq> Failure 400 ''Invalid review ID''
   \<and> checkReviewOwnership postgres15 example_db ''abc'' 1 = Halt 500 ''Authorization error''
   \<and> snd (updateReview postgres15 9 example_db ''abc'' 1 (Given 3) Absent)
       \<noteq> Failure 400 ''Invalid review ID''"
proof -
  have v: "sv_int4in postgres15 = int4in_v15" by (simp add: postgres15_def)
  have a: "checkReviewOwnership postgres15 example_db ''1'' 1 = Next" by code_simp
  have b: "checkReviewOwnership postgres15 example_db ''abc'' 1 = Halt 500 ''Authorization error''"
    by code_simp
  from invalid_review_id_branch[of postgres15 example_db "''1''" 1 9 "Given 3" Absent] v
  have c: "snd (updateReview postgres15 9 example_db ''1'' 1 (Given 3) Absent)
       \<noteq> Failure 400 ''Invalid review ID''"
    "snd (deleteReview postgres15 example_db ''1'' 1) \<noteq> Failure 400 ''Invalid review ID''"
    by blast+
  from invalid_review_id_branch[of postgres15 example_db "''abc''" 1 9 "Given 3" Absent] v
  have e: "snd (updateReview postgres15 9 example_db ''abc'' 1 (Given 3) Absent)
       \<noteq> Failure 400 ''Invalid review ID''"
    by blast
  from v a b c e show ?thesis by simp
qed

text \<open>
  The claim as stated (the branch cannot be reached) fails with a server that reads integers
  as PostgreSQL from version 16 does: it reads the id \<open>0x_1\<close> as 1, the guard finds review 1
  of the acting user and lets the request through, \<open>parseInt\<close> of \<open>0x_1\<close> is NaN, and both
  handlers answer 400 with 'Invalid review ID'.
\<close>

theorem invalid_review_id_branch_counterexample:
  "int4in_v16 ''0x_1'' = Some 1
   \<and> parseInt ''0x_1'' = None
   \<and> checkReviewOwnership postgres16 example_db ''0x_1'' 1 = Next
   \<and> updateReview postgres16 9 example_db ''0x_1'' 1 (Given 3) Absent
       = (example_db, Failure 400 ''Invalid review ID'')
   \<and> deleteReview postgres16 example_db ''0x_1'' 1
       = (example_db, Failure 400 ''Invalid review ID'')"
  by code_simp

section \<open>Theorems: ownership\<close>








section \<open>Theorems: login and signup\<close>

text \<open>
  For a login whose email and password are non-empty strings the two failures cannot be told
  apart, in any two states, and a password that matches the stored hash is accepted.
\<close>

lemma login_strings:
  assumes present: "email \<noteq> []" "password \<noteq> []"
  shows "(filter (\<lambda>u. u_email u = toLowerCase email) (users d) = [] \<longrightarrow>
            login compare generateToken d (JString email) (JString password)
              = Failure 401 ''Invalid email or password'')
   \<and> (\<forall>user rest. filter (\<lambda>u. u_email u = toLowerCase email) (users d) = user # rest
          \<and> \<not> compare password (u_password_hash user) \<longrightarrow>
            login compare generateToken d (JString email) (JString password)
              = Failure 401 ''Invalid email or password'')
   \<and> (\<forall>user rest. filter (\<lambda>u. u_email u = toLowerCase email) (users d) = user # rest
          \<and> compare password (u_password_hash user) \<longrightarrow>
            login compare generateToken d (JString email) (JString password)
              = Success 200 \<lparr> ap_id = u_id user, ap_username = u_username user,
                               ap_email = u_email user, ap_created_at = None,
                               ap_token = generateToken (u_id user) \<rparr>)"
  using present by (auto simp: login_def falsy_def)

text \<open>
  \<open>toLowerCase\<close> folds the letters of Latin-1: a signup whose email starts with a capital
  E with acute accent (U+00C9) stores it with the small letter (U+00E9).
\<close>

lemma signup_folds_latin1:
  "map_option u_email
     (List.find (\<lambda>u. u_id u = 3)
        (users (fst (signup (\<lambda>p. CHR ''#'' # p) (\<lambda>i. i) 9 example_db
                       (Given ''carol'') (Given (CHR 0xC9 # ''@x.com'')) (Given ''secret1'')))))
     = Some (CHR 0xE9 # ''@x.com'')"
  by code_simp

text \<open>
  C3 (the failure responses of login for an unknown email and for a known email with a wrong
  password are identical): the handler checks that the password is present, not that it is a
  string. In the example state, where \<open>alice@x.com\<close> is registered and \<open>carol@x.com\<close> is
  not, a login with the number 12345 as password is answered 500 for the registered email,
  because the comparison with the stored hash rejects a password that is not a string, and
  401 for the other: the response tells whether the email is registered.
\<close>

theorem login_password_type_leak:
  "\<not> falsy (JString ''alice@x.com'') \<and> \<not> falsy (JString ''carol@x.com'')
   \<and> \<not> falsy (JNumber 12345)
   \<and> map u_email (users example_db) = [''alice@x.com'', ''bob@x.com'']
   \<and> login (\<lambda>p h. h = CHR ''#'' # p) (\<lambda>i. i) example_db
        (JString ''alice@x.com'') (JNumber 12345)
       = Failure 500 ''Internal server error during login''
   \<and> login (\<lambda>p h. h = CHR ''#'' # p) (\<lambda>i. i) example_db
        (JString ''carol@x.com'') (JNumber 12345)
       = Failure 401 ''Invalid email or password''
   \<and> login (\<lambda>p h. h = CHR ''#'' # p) (\<lambda>i. i) example_db
        (JString ''alice@x.com'') (JString ''wrong'')
       = Failure 401 ''Invalid email or password''"
  by code_simp

text \<open>
  C4 (signup answers 409 exactly when the username or the case-folded email is taken): the
  handler looks for a stored username equal to the lower-cased new one, but stores usernames
  as given. In the example state, where 'Alice' and 'bob' are registered, a signup as 'Alice'
  with a new email passes the check, violates the \<open>UNIQUE\<close> constraint on insertion and is
  answered 500 with the users unchanged; a signup as 'BOB', a username nobody has, with a
  new email is answered 409.
\<close>

theorem signup_username_case:
  "list_ex (\<lambda>u. u_username u = ''Alice'') (users example_db)
   \<and> snd (signup (\<lambda>p. CHR ''#'' # p) (\<lambda>i. i) 9 example_db
            (Given ''Alice'') (Given ''new@x.com'') (Given ''secret1''))
       = Failure 500 ''Internal server error during registration''
   \<and> users (fst (signup (\<lambda>p. CHR ''#'' # p) (\<lambda>i. i) 9 example_db
            (Given ''Alice'') (Given ''new@x.com'') (Given ''secret1''))) = users example_db
   \<and> \<not> list_ex (\<lambda>u. u_username u = ''BOB'' \<or> u_email u = toLowerCase ''new@x.com'')
          (users example_db)
   \<and> snd (signup (\<lambda>p. CHR ''#'' # p) (\<lambda>i. i) 9 example_db
            (Given ''BOB'') (Given ''new@x.com'') (Given ''secret1''))
       = Failure 409 ''User with this email or username already exists''"
  by code_simp

section \<open>Theorems: one review per book and user\<close>






















section \<open>Theorems: adding a book\<close>














text \<open>
  With a \<open>LOWER\<close> that folds the letters of Latin-1, a book whose title differs from a
  stored one only in the case of an accented letter is a duplicate.
\<close>

lemma addBook_folds_latin1:
  "snd (addBook postgres15 2025 9
          (fst (addBook postgres15 2025 8 example_db 1 (Given (CHR 0xC9 # ''MMA''))
                  (Given ''AUSTEN'') Absent Absent Absent Absent))
          1 (Given (CHR 0xE9 # ''mma'')) (Given ''austen'') Absent Absent Absent Absent)
     = Failure 409 ''A book with this title and author already exists''
   \<and> map b_title (books (fst (addBook postgres15 2025 8 example_db 1
                  (Given (CHR 0xC9 # ''MMA'')) (Given ''AUSTEN'') Absent Absent Absent Absent)))
       = [''Dune'', CHR 0xC9 # ''MMA'']"
  by code_simp





section \<open>Theorems: updating a review\<close>









section \<open>Theorems: book detail\<close>









section \<open>Theorems: search\<close>

text \<open>
  For a query without \<open>%\<close>, \<open>_\<close> and backslash the pattern \<open>%query%\<close> matches exactly the
  texts that contain the query, and the score is 4, 3 or 1 as the ranking policy says. The rows
  of every result are in the order of the \<open>ORDER BY\<close>: higher score first, and newer book
  first among equal scores.
\<close>

lemma like_percent_all: "like_match ''%'' t"
  by (induction t) auto

lemma like_percent_iff:
  "like_match (CHR ''%'' # ps) t \<longleftrightarrow> (\<exists>i \<le> length t. like_match ps (drop i t))"
proof (induction t)
  case Nil
  then show ?case by simp
next
  case (Cons c t)
  have "like_match (CHR ''%'' # ps) (c # t)
        \<longleftrightarrow> like_match ps (c # t) \<or> like_match (CHR ''%'' # ps) t"
    by simp
  also have "\<dots> \<longleftrightarrow> like_match ps (c # t) \<or> (\<exists>i \<le> length t. like_match ps (drop i t))"
    using Cons.IH by simp
  also have "\<dots> \<longleftrightarrow> (\<exists>i \<le> length (c # t). like_match ps (drop i (c # t)))"
  proof
    assume "like_match ps (c # t) \<or> (\<exists>i \<le> length t. like_match ps (drop i t))"
    then show "\<exists>i \<le> length (c # t). like_match ps (drop i (c # t))"
    proof
      assume "like_match ps (c # t)"
      then have "like_match ps (drop 0 (c # t))" by simp
      then show ?thesis by blast
    next
      assume "\<exists>i \<le> length t. like_match ps (drop i t)"
      then obtain i where "i \<le> length t" "like_match ps (drop i t)" by blast
      then have "Suc i \<le> length (c # t)" "like_match ps (drop (Suc i) (c # t))" by simp_all
      then show ?thesis by blast
    qed
  next
    assume "\<exists>i \<le> length (c # t). like_match ps (drop i (c # t))"
    then obtain i where i: "i \<le> length (c # t)" "like_match ps (drop i (c # t))" by blast
    show "like_match ps (c # t) \<or> (\<exists>i \<le> length t. like_match ps (drop i t))"
    proof (cases i)
      case 0
      with i show ?thesis by simp
    next
      case (Suc j)
      with i have "j \<le> length t" "like_match ps (drop j t)" by simp_all
      then show ?thesis by blast
    qed
  qed
  finally show ?case .
qed

lemma like_literal_prefix:
  assumes "like_plain q"
  shows "like_match (q @ ps) t \<longleftrightarrow> (take (length q) t = q \<and> like_match ps (drop (length q) t))"
  using assms
proof (induction q arbitrary: t)
  case Nil
  then show ?case by simp
next
  case (Cons c q)
  then have c: "c \<noteq> CHR ''%''" "c \<noteq> CHR ''_''" "c \<noteq> CHR 0x5C" and q: "like_plain q"
    by (simp_all add: like_plain_def)
  show ?case
  proof (cases t)
    case Nil
    with c show ?thesis by simp
  next
    case (Cons a t')
    with c Cons.IH[OF q, of t'] show ?thesis by auto
  qed
qed

lemma like_contains:
  assumes "like_plain q"
  shows "like_match (''%'' @ q @ ''%'') t \<longleftrightarrow> contains q t"
proof -
  have "like_match (''%'' @ q @ ''%'') t
        \<longleftrightarrow> (\<exists>i \<le> length t. like_match (q @ ''%'') (drop i t))"
    using like_percent_iff[of "q @ ''%''" t] by (simp del: like_match.simps)
  also have "\<dots> \<longleftrightarrow> (\<exists>i \<le> length t. take (length q) (drop i t) = q)"
    using like_literal_prefix[OF assms, of "''%''"] like_percent_all
    by (simp del: like_match.simps)
  also have "\<dots> \<longleftrightarrow> contains q t"
    unfolding contains_def list_ex_iff
    by (auto simp del: upt_Suc simp: less_Suc_eq_le)
  finally show ?thesis .
qed


lemma lower_latin1_pattern:
  "lower_latin1 (''%'' @ q @ ''%'') = ''%'' @ lower_latin1 q @ ''%''"
  by (simp add: lower_latin1_def lower_char_def)

lemma relevance_score_plain:
  assumes sv: "sv_lower sv = lower_latin1" and plain: "like_plain (lower_latin1 q)"
  shows "relevance_score sv q (''%'' @ q @ ''%'') b =
     (if lower_latin1 (b_title b) = lower_latin1 q \<or> lower_latin1 (b_author b) = lower_latin1 q
      then 4
      else if contains (lower_latin1 q) (lower_latin1 (b_title b))
              \<or> contains (lower_latin1 q) (lower_latin1 (b_author b)) then 3
      else 1)"
proof -
  have lk: "\<And>t. like_match (lower_latin1 (''%'' @ q @ ''%'')) t \<longleftrightarrow> contains (lower_latin1 q) t"
    unfolding lower_latin1_pattern by (rule like_contains[OF plain])
  show ?thesis
    unfolding relevance_score_def sv lk by auto
qed

lemma searchQuery_sorted:
  assumes "searchQuery sv fts d p1 p2 l off = Some rows"
  shows "sorted_wrt (\<lambda>x y. snd x > snd y
            \<or> (snd x = snd y
                \<and> b_created_at (bd_book (fst x)) \<ge> b_created_at (bd_book (fst y)))) rows"
proof -
  let ?key = "\<lambda>(bd, score). (- score, - int (b_created_at (bd_book bd)))"
  let ?all = "sort_key ?key (map (\<lambda>b. (book_details d b, relevance_score sv p1 p2 b))
                               (filter (search_where sv fts p1 p2) (books d)))"
  have "sorted (map ?key ?all)" by (rule sorted_sort_key)
  then have "sorted_wrt (\<lambda>x y. ?key x \<le> ?key y) ?all"
    by (simp add: sorted_map)
  then have a: "sorted_wrt (\<lambda>x y. snd x > snd y
            \<or> (snd x = snd y
                \<and> b_created_at (bd_book (fst x)) \<ge> b_created_at (bd_book (fst y)))) ?all"
    by (rule sorted_wrt_mono_rel[rotated]) (auto simp: case_prod_beta)
  from assms have "rows = take (nat l) (drop (nat off) ?all)"
    by (auto simp: searchQuery_def limit_offset_def split: if_splits)
  with a show ?thesis
    by (simp add: sorted_wrt_take sorted_wrt_drop)
qed

lemma searchQuery_scores:
  assumes "searchQuery sv fts d p1 p2 l off = Some rows" and "(bd, score) \<in> set rows"
  shows "score = relevance_score sv p1 p2 (bd_book bd) \<and> bd_book bd \<in> set (books d)
         \<and> search_where sv fts p1 p2 (bd_book bd)"
proof -
  let ?key = "\<lambda>(bd, score). (- score, - int (b_created_at (bd_book bd)))"
  let ?all = "sort_key ?key (map (\<lambda>b. (book_details d b, relevance_score sv p1 p2 b))
                               (filter (search_where sv fts p1 p2) (books d)))"
  from assms(1) have "rows = take (nat l) (drop (nat off) ?all)"
    by (auto simp: searchQuery_def limit_offset_def split: if_splits)
  with assms(2) have "(bd, score) \<in> set (drop (nat off) ?all)"
    by (blast dest: in_set_takeD)
  then have "(bd, score) \<in> set ?all"
    by (rule in_set_dropD)
  then show ?thesis
    by (auto simp: book_details_def Let_def)
qed

text \<open>
  C8 (relevance score 3 only for a book whose title or author contains the query): the
  query text is put between two \<open>%\<close> and used as a \<open>LIKE\<close> pattern without escaping, so
  \<open>_\<close> and \<open>%\<close> in it act as wildcards. In the example state, the search for \<open>__\<close>
  (with a full-text condition that matches nothing) returns the book 'Dune' by 'Herbert' with
  score 3, although neither its title nor its author contains or equals \<open>__\<close>.
\<close>

theorem search_like_wildcards:
  "\<not> contains (sv_lower postgres15 ''__'') (sv_lower postgres15 ''Dune'')
   \<and> \<not> contains (sv_lower postgres15 ''__'') (sv_lower postgres15 ''Herbert'')
   \<and> sv_lower postgres15 ''Dune'' \<noteq> sv_lower postgres15 ''__'' \<and> sv_lower postgres15 ''Herbert'' \<noteq> sv_lower postgres15 ''__''
   \<and> map_option (map (\<lambda>(bd, score). (b_title (bd_book bd), b_author (bd_book bd), score)))
         (searchQuery postgres15 (\<lambda>doc q. False) example_db ''__'' ''%__%'' 10 0)
       = Some [(''Dune'', ''Herbert'', 3)]
   \<and> (case search postgres15 (\<lambda>doc q. False) example_db (Some ''__'') None None of
         Success status (term, found, info) \<Rightarrow>
           status = 200 \<and> term = ''__'' \<and> map (\<lambda>bd. b_title (bd_book bd)) found = [''Dune'']
       | Failure status msg \<Rightarrow> False)"
  by code_simp

end
